theory Spec2Isabelle
  imports Main "HOL-Library.Word"
begin

section \<open>The BNS command of the Diode client (cmd/diode/bns.go)\<close>

text \<open>
  A Go string is a sequence of bytes, which is what \<open>string\<close> (a list of 8-bit
  characters) is; \<open>len\<close> is \<open>length\<close>. An address (\<open>util.Address\<close>, \<open>[20]byte\<close>) is a
  160-bit word: two addresses are equal when their bytes are, and \<open>[20]byte{}\<close> is 0.
\<close>

type_synonym address = "160 word"

subsection \<open>Name syntax\<close>

text \<open>One byte of the class \<open>[0-9a-z-]\<close> of \<open>bnsPattern\<close>.\<close>

definition bnsClass :: "char \<Rightarrow> bool" where
  "bnsClass c =
     ((48 \<le> (of_char c :: nat) \<and> (of_char c :: nat) \<le> 57)
      \<or> (97 \<le> (of_char c :: nat) \<and> (of_char c :: nat) \<le> 122)
      \<or> (of_char c :: nat) = 45)"

text \<open>
  \<open>bnsPattern.Match\<close> for the pattern \<open>^[0-9a-z-]+$\<close>: without the multi-line flag
  both anchors match only at the ends of the text, so the whole text is one or more
  bytes of the class.
\<close>

definition bnsPattern_Match :: "string \<Rightarrow> bool" where
  "bnsPattern_Match name = (name \<noteq> [] \<and> list_all bnsClass name)"

definition isValidBNS :: "string \<Rightarrow> bool" where
  "isValidBNS name =
     (if length name < 7 \<or> length name > 32 then False
      else bnsPattern_Match name)"

subsection \<open>The two functions of package strings that the handlers call\<close>

definition asciiLower :: "char \<Rightarrow> char" where
  "asciiLower c =
     (if 65 \<le> (of_char c :: nat) \<and> (of_char c :: nat) \<le> 90
      then char_of ((of_char c :: nat) + 32) else c)"

text \<open>
  \<open>strings.ToLower\<close>: a string of ASCII bytes only has its letters \<open>A\<close> to \<open>Z\<close>
  replaced; any other string goes through \<open>strings.Map(unicode.ToLower, s)\<close>, whose
  Unicode tables are not part of the program and which is the parameter \<open>uni\<close>.
\<close>

definition ToLower :: "(string \<Rightarrow> string) \<Rightarrow> string \<Rightarrow> string" where
  "ToLower uni s =
     (if list_all (\<lambda>c. (of_char c :: nat) < 128) s then map asciiLower s else uni s)"


text \<open>
  \<open>strings.Split(s, sep)\<close> for a separator of one byte: the pieces of \<open>s\<close> between
  the separators, one more than there are separators (so \<open>[""]\<close> for the empty string).
\<close>

fun Split :: "string \<Rightarrow> char \<Rightarrow> string list" where
  "Split [] sep = [] # []"
| "Split (c # cs) sep =
     (if c = sep then [] # Split cs sep
      else (case Split cs sep of [] \<Rightarrow> (c # []) # [] | p # ps \<Rightarrow> (c # p) # ps))"

subsection \<open>Values the handlers build\<close>

datatype fmtarg = Str string | Hex address | HexString address

text \<open>A formatted text is kept as its format and arguments.\<close>

datatype message = Lit string | Sprintf string "fmtarg list"

text \<open>An error is one made here with \<open>fmt.Errorf\<close> or one returned by a collaborator.\<close>

datatype error = Errorf string "fmtarg list" | External string

text \<open>\<open>edge.NewTransaction(nonce, price, gasLimit, to, value, data, chainID)\<close>.\<close>

datatype transaction =
  NewTransaction "64 word" nat nat address nat "8 word list" nat

record config =
  BNSRegister :: string
  BNSUnregister :: string
  BNSTransfer :: string
  BNSLookup :: string
  ClientAddr :: address

subsection \<open>The collaborators\<close>

text \<open>
  The client, the application, the contract encoder and the address decoder live in
  other packages. They are parameters: each call that can depend on the ledger or on time
  takes the state \<open>'w\<close> of the outside world and returns the next one. A call returns
  what the Go function returns, an error beside a value where Go has both. The client
  that \<open>app.datapool.GetNearestClient()\<close> returns is taken to exist; its methods are the
  fields \<open>client_...\<close>. \<open>cfg.ClientAddr\<close> and \<open>client.Config.ClientAddr\<close> are kept
  apart, as the source reads them from two places.
\<close>

record 'w extern =
  app_Start :: "'w \<Rightarrow> error option \<times> 'w"
  client_GetBlockPeak :: "'w \<Rightarrow> 64 word \<times> 'w"
  client_GetAccountNonce :: "'w \<Rightarrow> 64 word \<Rightarrow> address \<Rightarrow> 64 word \<times> 'w"
  client_ResolveBNS :: "'w \<Rightarrow> string \<Rightarrow> (address \<times> error option) \<times> 'w"
  client_ResolveBNSOwner :: "'w \<Rightarrow> string \<Rightarrow> (address \<times> error option) \<times> 'w"
  client_SendTransaction :: "'w \<Rightarrow> transaction \<Rightarrow> (bool \<times> error option) \<times> 'w"
  client_LastValid :: "'w \<Rightarrow> 64 word \<times> 'w"
  client_Config_ClientAddr :: address
  time_Sleep :: "'w \<Rightarrow> 'w"
  contract_NewBNSContract :: "error option"
  contract_BNSAddr :: address
  bnsContract_Register :: "string \<Rightarrow> address \<Rightarrow> 8 word list"
  bnsContract_Transfer :: "string \<Rightarrow> address \<Rightarrow> 8 word list"
  bnsContract_Unregister :: "string \<Rightarrow> 8 word list"
  util_DecodeAddress :: "string \<Rightarrow> address \<times> error option"
  unicode_ToLower :: "string \<Rightarrow> string"

text \<open>What a run does to the outside, in order.\<close>

datatype event =
    CallStart
  | CallGetBlockPeak
  | CallGetAccountNonce "64 word" address
  | CallResolveBNS string
  | CallResolveBNSOwner string
  | CallSendTransaction transaction
  | CallLastValid
  | CallSleep
  | PrintError string "error option"
  | PrintLabel string message
  | PrintInfo string

type_synonym 'w state = "'w \<times> event list"

fun ledgerRead :: "event \<Rightarrow> bool" where
  "ledgerRead CallGetBlockPeak = True"
| "ledgerRead (CallGetAccountNonce b a) = True"
| "ledgerRead (CallResolveBNS n) = True"
| "ledgerRead (CallResolveBNSOwner n) = True"
| "ledgerRead CallLastValid = True"
| "ledgerRead e = False"

fun submission :: "event \<Rightarrow> bool" where
  "submission (CallSendTransaction t) = True"
| "submission e = False"

definition networkAccess :: "event \<Rightarrow> bool" where
  "networkAccess e = (ledgerRead e \<or> submission e)"

text \<open>The number of transactions a log shows as submitted.\<close>

definition submissions :: "event list \<Rightarrow> nat" where
  "submissions evs = length (filter submission evs)"

text \<open>The events a run from state \<open>s\<close> to state \<open>s'\<close> has added to the log.\<close>

definition newEvents :: "'w state \<Rightarrow> 'w state \<Rightarrow> event list" where
  "newEvents s s' = drop (length (snd s)) (snd s')"

definition emit :: "event \<Rightarrow> 'w state \<Rightarrow> 'w state" where
  "emit e s = (fst s, snd s @ [e])"

definition printError :: "string \<Rightarrow> error option \<Rightarrow> 'w state \<Rightarrow> 'w state" where
  "printError msg err s = emit (PrintError msg err) s"

definition printLabel :: "string \<Rightarrow> message \<Rightarrow> 'w state \<Rightarrow> 'w state" where
  "printLabel label v s = emit (PrintLabel label v) s"

definition printInfo :: "string \<Rightarrow> 'w state \<Rightarrow> 'w state" where
  "printInfo msg s = emit (PrintInfo msg) s"

definition Start :: "'w extern \<Rightarrow> 'w state \<Rightarrow> error option \<times> 'w state" where
  "Start ext s =
     (fst (app_Start ext (fst s)), (snd (app_Start ext (fst s)), snd s @ [CallStart]))"

definition GetBlockPeak :: "'w extern \<Rightarrow> 'w state \<Rightarrow> 64 word \<times> 'w state" where
  "GetBlockPeak ext s =
     (fst (client_GetBlockPeak ext (fst s)),
      (snd (client_GetBlockPeak ext (fst s)), snd s @ [CallGetBlockPeak]))"

definition GetAccountNonce ::
  "'w extern \<Rightarrow> 64 word \<Rightarrow> address \<Rightarrow> 'w state \<Rightarrow> 64 word \<times> 'w state" where
  "GetAccountNonce ext b a s =
     (fst (client_GetAccountNonce ext (fst s) b a),
      (snd (client_GetAccountNonce ext (fst s) b a), snd s @ [CallGetAccountNonce b a]))"

definition ResolveBNS ::
  "'w extern \<Rightarrow> string \<Rightarrow> 'w state \<Rightarrow> (address \<times> error option) \<times> 'w state" where
  "ResolveBNS ext n s =
     (fst (client_ResolveBNS ext (fst s) n),
      (snd (client_ResolveBNS ext (fst s) n), snd s @ [CallResolveBNS n]))"

definition ResolveBNSOwner ::
  "'w extern \<Rightarrow> string \<Rightarrow> 'w state \<Rightarrow> (address \<times> error option) \<times> 'w state" where
  "ResolveBNSOwner ext n s =
     (fst (client_ResolveBNSOwner ext (fst s) n),
      (snd (client_ResolveBNSOwner ext (fst s) n), snd s @ [CallResolveBNSOwner n]))"

definition SendTransaction ::
  "'w extern \<Rightarrow> transaction \<Rightarrow> 'w state \<Rightarrow> (bool \<times> error option) \<times> 'w state" where
  "SendTransaction ext t s =
     (fst (client_SendTransaction ext (fst s) t),
      (snd (client_SendTransaction ext (fst s) t), snd s @ [CallSendTransaction t]))"

definition LastValid :: "'w extern \<Rightarrow> 'w state \<Rightarrow> 64 word \<times> 'w state" where
  "LastValid ext s =
     (fst (client_LastValid ext (fst s)),
      (snd (client_LastValid ext (fst s)), snd s @ [CallLastValid]))"

definition Sleep :: "'w extern \<Rightarrow> 'w state \<Rightarrow> 'w state" where
  "Sleep ext s = (time_Sleep ext (fst s), snd s @ [CallSleep])"

subsection \<open>Waiting for the confirmation\<close>

text \<open>
  The inner loop of \<open>wait\<close>: read the last valid block number until it differs from
  \<open>bn\<close>, sleeping 100 ms after each read that does not. Nothing bounds it, so it is a
  partial function: \<open>None\<close> is the loop that never ends.
\<close>

partial_function (option) waitBlock :: "'w extern \<Rightarrow> 64 word \<Rightarrow> 'w state \<Rightarrow> 'w state option" where
  "waitBlock ext bn s =
     (if bn \<noteq> fst (LastValid ext s) then Some (snd (LastValid ext s))
      else waitBlock ext bn (Sleep ext (snd (LastValid ext s))))"

text \<open>The outer loop of \<open>wait\<close>, from the value \<open>i\<close> of its counter.\<close>

function waitFrom ::
  "'w extern \<Rightarrow> ('w state \<Rightarrow> bool \<times> 'w state) \<Rightarrow> nat \<Rightarrow> 'w state \<Rightarrow> 'w state option" where
  "waitFrom ext condition i s =
     (if i < 6000 then
        (let (bn, s1) = LastValid ext s;
             (c, s2) = condition s1
         in if c then Some (printInfo ''Transaction executed successfully!'' s2)
            else (case waitBlock ext bn s2 of
                    None \<Rightarrow> None
                  | Some s3 \<Rightarrow> waitFrom ext condition (i + 1) s3))
      else Some (printError ''Giving up to wait for transaction''
                   (Some (Errorf ''timeout after 10 minutes'' [])) s))"
  by pat_completeness auto
termination
  by (relation "measure (\<lambda>(ext, condition, i, s). 6000 - i)") auto

declare waitFrom.simps [simp del]

definition wait ::
  "'w extern \<Rightarrow> ('w state \<Rightarrow> bool \<times> 'w state) \<Rightarrow> 'w state \<Rightarrow> 'w state option" where
  "wait ext condition s =
     waitFrom ext condition 0
       (printInfo ''Waiting for block to be confirmed - expect to wait 5 minutes'' s)"

subsection \<open>The handlers\<close>

text \<open>
  The three function literals that the handlers pass to \<open>wait\<close>, with the variables
  they capture as parameters.
\<close>

definition registerCondition ::
  "'w extern \<Rightarrow> string \<Rightarrow> address \<Rightarrow> 'w state \<Rightarrow> bool \<times> 'w state" where
  "registerCondition ext bnsName bnsAddr t =
     (let ((current, err), t1) = ResolveBNS ext bnsName t
      in (err = None \<and> current = bnsAddr, t1))"

definition transferCondition ::
  "'w extern \<Rightarrow> string \<Rightarrow> address \<Rightarrow> 'w state \<Rightarrow> bool \<times> 'w state" where
  "transferCondition ext bnsName newOwner t =
     (let ((current, err), t1) = ResolveBNSOwner ext bnsName t
      in (err = None \<and> current = newOwner, t1))"

definition unregisterCondition ::
  "'w extern \<Rightarrow> string \<Rightarrow> 'w state \<Rightarrow> bool \<times> 'w state" where
  "unregisterCondition ext bnsName t =
     (let ((owner, ignored), t1) = ResolveBNSOwner ext bnsName t
      in (owner = 0, t1))"

text \<open>
  A handler returns \<open>(done, err)\<close> and the state it leaves, or \<open>None\<close> when its wait
  never ends. \<open>handleLookup\<close> does not wait.
\<close>

definition nameError :: error where
  "nameError =
     Errorf ''BNS name should be more than 7 or less than 32 characters (0-9A-Za-z-)'' []"

definition handleLookup ::
  "'w extern \<Rightarrow> config \<Rightarrow> 'w state \<Rightarrow> (bool \<times> error option) \<times> 'w state" where
  "handleLookup ext cfg s =
     (let lookupName = ToLower (unicode_ToLower ext) (BNSLookup cfg)
      in if length lookupName = 0 then ((False, None), s)
         else
           (let ((obnsAddr, err), s1) = ResolveBNS ext lookupName s
            in if err \<noteq> None then ((True, err), printError ''Lookup error: '' err s1)
               else
                 (let s2 = printLabel ''Lookup result: ''
                             (Sprintf ''%s=0x%s'' [Str lookupName, Hex obnsAddr]) s1;
                      ((ownerAddr, err), s3) = ResolveBNSOwner ext lookupName s2
                  in if err \<noteq> None
                     then ((True, err), printError ''Couldn't lookup owner: '' err s3)
                     else ((True, None),
                           printLabel ''Domain owner: '' (Sprintf ''0x%s'' [Hex ownerAddr]) s3))))"

definition handleRegister ::
  "'w extern \<Rightarrow> config \<Rightarrow> 'w state \<Rightarrow> ((bool \<times> error option) \<times> 'w state) option" where
  "handleRegister ext cfg s =
     (if length (BNSRegister cfg) = 0 then Some ((False, None), s)
      else
        (let registerPair = Split (BNSRegister cfg) CHR ''=''
         in case contract_NewBNSContract ext of
              Some e \<Rightarrow>
                Some ((True, Some e),
                      printError ''Cannot create BNS contract instance: '' (Some e) s)
            | None \<Rightarrow>
                (let bnsName = ToLower (unicode_ToLower ext) (registerPair ! 0)
                 in if \<not> isValidBNS bnsName
                    then Some ((True, None), printError ''Argument Error: '' (Some nameError) s)
                    else
                      (let (nonce, s1) = GetAccountNonce ext 0 (ClientAddr cfg) s;
                           (bnsAddr, err) =
                             (if length registerPair > 1
                              then util_DecodeAddress ext (registerPair ! 1)
                              else (ClientAddr cfg, None))
                       in if err \<noteq> None
                          then Some ((True, err), printError ''Invalid diode address'' err s1)
                          else
                            (let ((obnsAddr, err), s2) = ResolveBNS ext bnsName s1
                             in if err = None \<and> obnsAddr = bnsAddr
                                then Some ((True, None),
                                       printError ''BNS name is already mapped to this address''
                                         None s2)
                                else
                                  (let registerData = bnsContract_Register ext bnsName bnsAddr;
                                       ntx = NewTransaction nonce 0 10000000
                                               (contract_BNSAddr ext) 0 registerData 0;
                                       ((res, err), s3) = SendTransaction ext ntx s2
                                   in if err \<noteq> None
                                      then Some ((True, err),
                                             printError
                                               ''Cannot register blockchain name service: ''
                                               err s3)
                                      else if \<not> res
                                      then Some ((True, None),
                                             printError
                                               ''Cannot register blockchain name service: ''
                                               (Some (Errorf ''server return false'' [])) s3)
                                      else
                                        map_option (\<lambda>s5. ((True, None), s5))
                                          (wait ext (registerCondition ext bnsName bnsAddr)
                                             (printLabel ''Register bns: ''
                                                (Sprintf ''%s=%s''
                                                   [Str bnsName, HexString bnsAddr])
                                                s3))))))))"

definition handleTransfer ::
  "'w extern \<Rightarrow> config \<Rightarrow> 'w state \<Rightarrow> ((bool \<times> error option) \<times> 'w state) option" where
  "handleTransfer ext cfg s =
     (let transferPair = Split (BNSTransfer cfg) CHR ''=''
      in if length transferPair \<noteq> 2 then Some ((False, None), s)
         else
           (case contract_NewBNSContract ext of
              Some e \<Rightarrow>
                Some ((True, Some e),
                      printError ''Cannot create BNS contract instance: '' (Some e) s)
            | None \<Rightarrow>
                (let bnsName = ToLower (unicode_ToLower ext) (transferPair ! 0)
                 in if \<not> isValidBNS bnsName
                    then Some ((True, None), printError ''Argument Error: '' (Some nameError) s)
                    else
                      (let (nonce, s1) = GetAccountNonce ext 0 (ClientAddr cfg) s;
                           (newOwner, err) = util_DecodeAddress ext (transferPair ! 1)
                       in if err \<noteq> None
                          then Some ((True, err),
                                 printError ''Invalid destination address'' err s1)
                          else
                            (let ((owner, err), s2) = ResolveBNSOwner ext bnsName s1
                             in if err = None \<and> owner = newOwner
                                then Some ((True,
                                        Some (Errorf ''domain is already owned by %v''
                                                [HexString owner])),
                                       printError ''BNS name already transferred''
                                         (Some (Errorf ''domain is already owned by %v''
                                                  [HexString owner])) s2)
                                else if err = None \<and> owner \<noteq> client_Config_ClientAddr ext
                                then Some ((True,
                                        Some (Errorf ''bns domain is owned by %v''
                                                [HexString owner])),
                                       printError ''BNS name can't be transfered''
                                         (Some (Errorf ''bns domain is owned by %v''
                                                  [HexString owner])) s2)
                                else
                                  (let registerData = bnsContract_Transfer ext bnsName newOwner;
                                       ntx = NewTransaction nonce 0 10000000
                                               (contract_BNSAddr ext) 0 registerData 0;
                                       ((res, err), s3) = SendTransaction ext ntx s2;
                                       err = (if err = None \<and> \<not> res
                                              then Some (Errorf ''server returned false'' [])
                                              else err)
                                   in if err \<noteq> None
                                      then Some ((True, err),
                                             printError ''Cannot transfer blockchain name: ''
                                               err s3)
                                      else
                                        map_option (\<lambda>s5. ((True, None), s5))
                                          (wait ext (transferCondition ext bnsName newOwner)
                                             (printLabel ''Transferring bns: ''
                                                (Sprintf ''%s=%s''
                                                   [Str bnsName, HexString newOwner])
                                                s3))))))))"

definition handleUnregister ::
  "'w extern \<Rightarrow> config \<Rightarrow> 'w state \<Rightarrow> ((bool \<times> error option) \<times> 'w state) option" where
  "handleUnregister ext cfg s =
     (if length (BNSUnregister cfg) = 0 then Some ((False, None), s)
      else
        (case contract_NewBNSContract ext of
           Some e \<Rightarrow>
             Some ((True, Some e),
                   printError ''Cannot create BNS contract instance: '' (Some e) s)
         | None \<Rightarrow>
             (let bnsName = ToLower (unicode_ToLower ext) (BNSUnregister cfg)
              in if \<not> isValidBNS bnsName
                 then Some ((True, None), printError ''Argument Error: '' (Some nameError) s)
                 else
                   (let (nonce, s1) = GetAccountNonce ext 0 (ClientAddr cfg) s;
                        ((owner, ignored), s2) = ResolveBNSOwner ext bnsName s1
                    in if owner = 0
                       then Some ((True, Some (Errorf ''BNS name is already free'' [])), s2)
                       else if owner \<noteq> client_Config_ClientAddr ext
                       then Some ((True, Some (Errorf ''BNS owned by %v'' [HexString owner])),
                              printError ''BNS name can't be freed''
                                (Some (Errorf ''BNS owned by %v'' [HexString owner])) s2)
                       else
                         (let registerData = bnsContract_Unregister ext bnsName;
                              ntx = NewTransaction nonce 0 10000000
                                      (contract_BNSAddr ext) 0 registerData 0;
                              ((res, err), s3) = SendTransaction ext ntx s2;
                              err = (if err = None \<and> \<not> res
                                     then Some (Errorf ''server returned false'' [])
                                     else err)
                          in if err \<noteq> None
                             then Some ((True, err),
                                    printError ''Cannot unregister blockchain name: '' err s3)
                             else
                               map_option (\<lambda>s5. ((True, None), s5))
                                 (wait ext (unregisterCondition ext bnsName)
                                    (printLabel ''Unregistering bns: '' (Lit bnsName) s3)))))))"

subsection \<open>The command\<close>

definition usageError :: error where
  "usageError =
     Errorf ''provide -register <name>=<address> or -lookup <name> or -unregister <name> or -transfer <name>=<new_owner> argument'' []"

text \<open>
  \<open>bnsHandler\<close> returns \<open>err\<close>. The handlers are tried in the order of the source, and
  one that returns \<open>done\<close> or an error ends the command.
\<close>

definition bnsHandler ::
  "'w extern \<Rightarrow> config \<Rightarrow> 'w state \<Rightarrow> (error option \<times> 'w state) option" where
  "bnsHandler ext cfg s =
     (let (err, s0) = Start ext s
      in if err \<noteq> None then Some (err, s0)
         else
           (let (bn, s1) = GetBlockPeak ext s0
            in if bn = 0
               then Some (None,
                      printError ''Cannot find block peak: '' (Some (Errorf ''not found'' [])) s1)
               else
                 (case handleRegister ext cfg s1 of
                    None \<Rightarrow> None
                  | Some ((done, err), s2) \<Rightarrow>
                      if done \<or> err \<noteq> None then Some (err, s2)
                      else
                        (case handleUnregister ext cfg s2 of
                           None \<Rightarrow> None
                         | Some ((done, err), s3) \<Rightarrow>
                             if done \<or> err \<noteq> None then Some (err, s3)
                             else
                               (case handleTransfer ext cfg s3 of
                                  None \<Rightarrow> None
                                | Some ((done, err), s4) \<Rightarrow>
                                    if done \<or> err \<noteq> None then Some (err, s4)
                                    else
                                      (let ((done, err), s5) = handleLookup ext cfg s4
                                       in if done \<or> err \<noteq> None then Some (err, s5)
                                          else Some (err,
                                                 printError ''Argument Error: ''
                                                   (Some usageError) s5)))))))"

subsection \<open>A ledger to run the handlers on\<close>

text \<open>
  The world is a clock. On \<open>ledgerA\<close> every name is bound to address 187 and owned by
  address 204, the caller is address 170, every block read sees a new height, and two
  address texts decode.
\<close>

definition ledgerA :: "nat extern" where
  "ledgerA =
     \<lparr> app_Start = (\<lambda>w. (None, w)),
       client_GetBlockPeak = (\<lambda>w. (100, w)),
       client_GetAccountNonce = (\<lambda>w b a. (5, w)),
       client_ResolveBNS = (\<lambda>w n. ((187, None), w)),
       client_ResolveBNSOwner = (\<lambda>w n. ((204, None), w)),
       client_SendTransaction = (\<lambda>w t. ((True, None), w)),
       client_LastValid = (\<lambda>w. (of_nat w, Suc w)),
       client_Config_ClientAddr = 170,
       time_Sleep = Suc,
       contract_NewBNSContract = None,
       contract_BNSAddr = 181,
       bnsContract_Register = (\<lambda>n a. []),
       bnsContract_Transfer = (\<lambda>n a. []),
       bnsContract_Unregister = (\<lambda>n. []),
       util_DecodeAddress =
         (\<lambda>t. if t = ''0xbb'' then (187, None)
              else if t = ''0xcc'' then (204, None)
              else (0, Some (External ''invalid address''))),
       unicode_ToLower = (\<lambda>t. t) \<rparr>"

text \<open>The same ledger with no owner for any name.\<close>

definition ledgerFree :: "nat extern" where
  "ledgerFree =
     ledgerA \<lparr> client_ResolveBNSOwner := (\<lambda>w n. ((0, Some (External ''not found'')), w)) \<rparr>"

text \<open>The same ledger with a block height that stays at 7.\<close>

definition ledgerStalled :: "nat extern" where
  "ledgerStalled = ledgerA \<lparr> client_LastValid := (\<lambda>w. (7, w)) \<rparr>"

text \<open>
  A ledger that binds every name to address 204 once a transaction has been sent.
\<close>

definition ledgerB :: "nat extern" where
  "ledgerB =
     ledgerA \<lparr> client_ResolveBNS := (\<lambda>w n. ((if w = 0 then 187 else 204, None), w)),
               client_SendTransaction := (\<lambda>w t. ((True, None), Suc w)) \<rparr>"

definition noRequest :: config where
  "noRequest =
     \<lparr> BNSRegister = [], BNSUnregister = [], BNSTransfer = [], BNSLookup = [],
       ClientAddr = 170 \<rparr>"

section \<open>Properties\<close>

subsection \<open>Name syntax\<close>

lemma char_eq_of_char: "(c = d) = ((of_char c :: nat) = of_char d)"
  by simp

lemma digit_range:
  "(48 \<le> (n::nat) \<and> n \<le> 57) =
     (n = 48 \<or> n = 49 \<or> n = 50 \<or> n = 51 \<or> n = 52 \<or> n = 53 \<or> n = 54 \<or> n = 55 \<or> n = 56
      \<or> n = 57)"
  by arith

lemma lower_range:
  "(97 \<le> (n::nat) \<and> n \<le> 122) =
     (n = 97 \<or> n = 98 \<or> n = 99 \<or> n = 100 \<or> n = 101 \<or> n = 102 \<or> n = 103 \<or> n = 104
      \<or> n = 105 \<or> n = 106 \<or> n = 107 \<or> n = 108 \<or> n = 109 \<or> n = 110 \<or> n = 111 \<or> n = 112
      \<or> n = 113 \<or> n = 114 \<or> n = 115 \<or> n = 116 \<or> n = 117 \<or> n = 118 \<or> n = 119 \<or> n = 120
      \<or> n = 121 \<or> n = 122)"
  by arith

lemma bnsClass_chars:
  "bnsClass c \<longleftrightarrow>
     c \<in> set ''0123456789'' \<or> c \<in> set ''abcdefghijklmnopqrstuvwxyz'' \<or> c = CHR ''-''"
  unfolding bnsClass_def digit_range lower_range
  by (simp add: char_eq_of_char)

text \<open>
  C4. \<open>isValidBNS\<close> is a total boolean function, and it is true exactly of the strings
  of 7 to 32 bytes in which every byte is a digit, a lower-case ASCII letter or a hyphen.
\<close>

theorem isValidBNS_iff:
  "isValidBNS name \<longleftrightarrow>
     7 \<le> length name \<and> length name \<le> 32 \<and>
     (\<forall>c \<in> set name. c \<in> set ''0123456789'' \<or> c \<in> set ''abcdefghijklmnopqrstuvwxyz''
        \<or> c = CHR ''-'')"
proof -
  have "list_all bnsClass name =
     (\<forall>c \<in> set name. c \<in> set ''0123456789'' \<or> c \<in> set ''abcdefghijklmnopqrstuvwxyz''
        \<or> c = CHR ''-'')"
    unfolding list_all_iff bnsClass_chars ..
  moreover have "7 \<le> length name \<Longrightarrow> name \<noteq> []" by auto
  ultimately show ?thesis
    unfolding isValidBNS_def bnsPattern_Match_def by auto
qed

theorem isValidBNS_iff_witness:
  "isValidBNS ''hello-world'' \<and> \<not> isValidBNS ''shortn'' \<and> \<not> isValidBNS ''Hello-World''
   \<and> \<not> isValidBNS ''a-name-that-is-much-longer-than-32-bytes''"
  using isValidBNS_iff [of "''hello-world''"] isValidBNS_iff [of "''shortn''"]
    isValidBNS_iff [of "''Hello-World''"]
    isValidBNS_iff [of "''a-name-that-is-much-longer-than-32-bytes''"]
  by simp

subsection \<open>Splitting and lower-casing\<close>

lemma Split_length: "length (Split s sep) = Suc (count_list s sep)"
  by (induction s) (auto split: list.splits)

lemma Split_not_Nil: "Split s sep \<noteq> []"
  using Split_length [of s sep] by auto

lemmas calls = Start_def GetBlockPeak_def GetAccountNonce_def ResolveBNS_def
  ResolveBNSOwner_def SendTransaction_def LastValid_def Sleep_def
  printError_def printLabel_def printInfo_def emit_def

subsection \<open>Requests that are refused before anything is submitted\<close>

lemma newEvents_same [simp]: "newEvents s s = []"
  by (simp add: newEvents_def)

lemma newEvents_append [simp]: "newEvents s (w, snd s @ evs) = evs"
  by (simp add: newEvents_def)

text \<open>
  C5. A register request whose name is valid once lower-cased, whose address (the decoded
  text after \<open>=\<close>, or the client's own address when there is none) is \<open>addr\<close>, and whose
  name resolves without error to \<open>addr\<close>, is reported as already mapped to this address:
  the handler returns \<open>done\<close> with no error after the nonce read and the resolver read,
  and the log gains no submission.
\<close>

theorem handleRegister_already_mapped:
  assumes "BNSRegister cfg \<noteq> []"
    and "contract_NewBNSContract ext = None"
    and "name = ToLower (unicode_ToLower ext) (Split (BNSRegister cfg) CHR ''='' ! 0)"
    and "isValidBNS name"
    and "(if length (Split (BNSRegister cfg) CHR ''='') > 1
          then util_DecodeAddress ext (Split (BNSRegister cfg) CHR ''='' ! 1)
          else (ClientAddr cfg, None)) = (addr, None)"
    and "client_GetAccountNonce ext (fst s) 0 (ClientAddr cfg) = (nonce, w1)"
    and "client_ResolveBNS ext w1 name = ((addr, None), w2)"
  shows "\<exists>s'. handleRegister ext cfg s = Some ((True, None), s')
          \<and> s' = (w2, snd s @ [CallGetAccountNonce 0 (ClientAddr cfg), CallResolveBNS name,
                     PrintError ''BNS name is already mapped to this address'' None])
          \<and> submissions (snd s') = submissions (snd s)"
  using assms
  by (simp add: handleRegister_def calls submissions_def Let_def)

theorem handleRegister_already_mapped_witness:
  "handleRegister ledgerA (noRequest \<lparr> BNSRegister := ''Hello-World=0xbb'' \<rparr>) (0, []) =
     Some ((True, None),
           (0, [CallGetAccountNonce 0 170, CallResolveBNS ''hello-world'',
                PrintError ''BNS name is already mapped to this address'' None]))"
proof -
  let ?cfg = "noRequest \<lparr> BNSRegister := ''Hello-World=0xbb'' \<rparr>"
  have h1: "BNSRegister ?cfg \<noteq> []"
    by code_simp
  have h2: "contract_NewBNSContract ledgerA = None"
    by code_simp
  have h3: "''hello-world'' =
      ToLower (unicode_ToLower ledgerA) (Split (BNSRegister ?cfg) CHR ''='' ! 0)"
    by code_simp
  have h4: "isValidBNS ''hello-world''"
    by code_simp
  have h5: "(if length (Split (BNSRegister ?cfg) CHR ''='') > 1
             then util_DecodeAddress ledgerA (Split (BNSRegister ?cfg) CHR ''='' ! 1)
             else (ClientAddr ?cfg, None)) = (187, None)"
    by code_simp
  have h6: "client_GetAccountNonce ledgerA (fst (0, [])) 0 (ClientAddr ?cfg) = (5, 0)"
    by code_simp
  have h7: "client_ResolveBNS ledgerA 0 ''hello-world'' = ((187, None), 0)"
    by code_simp
  have c: "ClientAddr ?cfg = 170"
    by code_simp
  show ?thesis
    using handleRegister_already_mapped [OF h1 h2 h3 h4 h5 h6 h7] by (simp add: c)
qed

text \<open>
  C6. An unregister request whose name is valid once lower-cased and whose resolved owner
  is the all-zero address (whatever error the resolver returns beside it) ends with the
  error \<open>BNS name is already free\<close> after the nonce read and the owner read, and the log
  gains no submission.
\<close>

theorem handleUnregister_already_free:
  assumes "BNSUnregister cfg \<noteq> []"
    and "contract_NewBNSContract ext = None"
    and "name = ToLower (unicode_ToLower ext) (BNSUnregister cfg)"
    and "isValidBNS name"
    and "client_GetAccountNonce ext (fst s) 0 (ClientAddr cfg) = (nonce, w1)"
    and "client_ResolveBNSOwner ext w1 name = ((0, e), w2)"
  shows "\<exists>s'. handleUnregister ext cfg s =
            Some ((True, Some (Errorf ''BNS name is already free'' [])), s')
          \<and> s' = (w2, snd s @ [CallGetAccountNonce 0 (ClientAddr cfg), CallResolveBNSOwner name])
          \<and> submissions (snd s') = submissions (snd s)"
  using assms
  by (simp add: handleUnregister_def calls submissions_def)

theorem handleUnregister_already_free_witness:
  "handleUnregister ledgerFree (noRequest \<lparr> BNSUnregister := ''hello-world'' \<rparr>) (0, []) =
     Some ((True, Some (Errorf ''BNS name is already free'' [])),
           (0, [CallGetAccountNonce 0 170, CallResolveBNSOwner ''hello-world'']))"
proof -
  let ?cfg = "noRequest \<lparr> BNSUnregister := ''hello-world'' \<rparr>"
  have h1: "BNSUnregister ?cfg \<noteq> []"
    by code_simp
  have h2: "contract_NewBNSContract ledgerFree = None"
    by code_simp
  have h3: "''hello-world'' = ToLower (unicode_ToLower ledgerFree) (BNSUnregister ?cfg)"
    by code_simp
  have h4: "isValidBNS ''hello-world''"
    by code_simp
  have h5: "client_GetAccountNonce ledgerFree (fst (0, [])) 0 (ClientAddr ?cfg) = (5, 0)"
    by code_simp
  have h6: "client_ResolveBNSOwner ledgerFree 0 ''hello-world'' =
      ((0, Some (External ''not found'')), 0)"
    by code_simp
  have c: "ClientAddr ?cfg = 170"
    by code_simp
  show ?thesis
    using handleUnregister_already_free [OF h1 h2 h3 h4 h5 h6] by (simp add: c)
qed

text \<open>
  C1, as the code has it. A transfer request on a name whose owner resolves without error
  to an address that is not the caller's always returns with no submission, whatever else
  the request holds. It ends with the error \<open>bns domain is owned by\<close> that owner,
  printed under \<open>BNS name can't be transfered\<close>, after the nonce read and the owner
  read, when the name is valid once lower-cased and the new owner's text decodes to an
  address other than that owner.
\<close>

theorem handleTransfer_conflict:
  assumes "name = ToLower (unicode_ToLower ext) (Split (BNSTransfer cfg) CHR ''='' ! 0)"
    and "client_GetAccountNonce ext (fst s) 0 (ClientAddr cfg) = (nonce, w1)"
    and "client_ResolveBNSOwner ext w1 name = ((owner, None), w2)"
    and "owner \<noteq> client_Config_ClientAddr ext"
  shows "\<exists>r s'. handleTransfer ext cfg s = Some (r, s')
          \<and> \<not> list_ex submission (newEvents s s')
          \<and> submissions (snd s') = submissions (snd s)
          \<and> (length (Split (BNSTransfer cfg) CHR ''='') = 2
               \<and> contract_NewBNSContract ext = None \<and> isValidBNS name
               \<and> util_DecodeAddress ext (Split (BNSTransfer cfg) CHR ''='' ! 1) = (newOwner, None)
               \<and> owner \<noteq> newOwner \<longrightarrow>
               r = (True, Some (Errorf ''bns domain is owned by %v'' [HexString owner]))
               \<and> s' = (w2, snd s @ [CallGetAccountNonce 0 (ClientAddr cfg),
                                     CallResolveBNSOwner name,
                                     PrintError ''BNS name can't be transfered''
                                       (Some (Errorf ''bns domain is owned by %v''
                                                [HexString owner]))]))"
proof -
  let ?pair = "Split (BNSTransfer cfg) CHR ''=''"
  let ?s1 = "(w1, snd s @ [CallGetAccountNonce 0 (ClientAddr cfg)])"
  let ?s2 = "(w2, snd s @ [CallGetAccountNonce 0 (ClientAddr cfg), CallResolveBNSOwner name])"
  have n: "GetAccountNonce ext 0 (ClientAddr cfg) s = (nonce, ?s1)"
    using assms(2) by (simp add: GetAccountNonce_def)
  have o: "ResolveBNSOwner ext name ?s1 = ((owner, None), ?s2)"
    using assms(3) by (simp add: ResolveBNSOwner_def)
  consider (skip) "length ?pair \<noteq> 2"
    | (contract) e where "length ?pair = 2" "contract_NewBNSContract ext = Some e"
    | (invalid) "length ?pair = 2" "contract_NewBNSContract ext = None" "\<not> isValidBNS name"
    | (decode) a e where "length ?pair = 2" "contract_NewBNSContract ext = None" "isValidBNS name"
        "util_DecodeAddress ext (?pair ! 1) = (a, Some e)"
    | (same) "length ?pair = 2" "contract_NewBNSContract ext = None" "isValidBNS name"
        "util_DecodeAddress ext (?pair ! 1) = (owner, None)"
    | (other) a where "length ?pair = 2" "contract_NewBNSContract ext = None" "isValidBNS name"
        "util_DecodeAddress ext (?pair ! 1) = (a, None)" "owner \<noteq> a"
    by (cases "contract_NewBNSContract ext"; cases "util_DecodeAddress ext (?pair ! 1)";
        cases "snd (util_DecodeAddress ext (?pair ! 1))") auto
  then show ?thesis
  proof cases
    case skip
    then have "handleTransfer ext cfg s = Some ((False, None), s)"
      by (simp add: handleTransfer_def)
    with skip show ?thesis by auto
  next
    case contract
    then have "handleTransfer ext cfg s =
        Some ((True, Some e), (fst s, snd s @ [PrintError ''Cannot create BNS contract instance: '' (Some e)]))"
      by (simp add: handleTransfer_def printError_def emit_def)
    with contract show ?thesis by (auto simp add: submissions_def)
  next
    case invalid
    then have "handleTransfer ext cfg s =
        Some ((True, None), (fst s, snd s @ [PrintError ''Argument Error: '' (Some nameError)]))"
      using assms(1) by (simp add: handleTransfer_def printError_def emit_def)
    with invalid show ?thesis by (auto simp add: submissions_def)
  next
    case decode
    then have "handleTransfer ext cfg s =
        Some ((True, Some e), (w1, snd s @ [CallGetAccountNonce 0 (ClientAddr cfg),
          PrintError ''Invalid destination address'' (Some e)]))"
      using assms(1) n by (simp add: handleTransfer_def printError_def emit_def)
    with decode show ?thesis by (auto simp add: submissions_def)
  next
    case same
    then have "handleTransfer ext cfg s =
        Some ((True, Some (Errorf ''domain is already owned by %v'' [HexString owner])),
          (w2, snd s @ [CallGetAccountNonce 0 (ClientAddr cfg), CallResolveBNSOwner name,
             PrintError ''BNS name already transferred''
               (Some (Errorf ''domain is already owned by %v'' [HexString owner]))]))"
      using assms(1) n o by (simp add: handleTransfer_def printError_def emit_def)
    with same show ?thesis by (auto simp add: submissions_def)
  next
    case other
    then have "handleTransfer ext cfg s =
        Some ((True, Some (Errorf ''bns domain is owned by %v'' [HexString owner])),
          (w2, snd s @ [CallGetAccountNonce 0 (ClientAddr cfg), CallResolveBNSOwner name,
             PrintError ''BNS name can't be transfered''
               (Some (Errorf ''bns domain is owned by %v'' [HexString owner]))]))"
      using assms(1,4) n o by (simp add: handleTransfer_def printError_def emit_def)
    with other show ?thesis by (auto simp add: submissions_def)
  qed
qed


theorem handleTransfer_conflict_witness:
  "handleTransfer ledgerA (noRequest \<lparr> BNSTransfer := ''hello-world=0xbb'' \<rparr>) (0, []) =
     Some ((True, Some (Errorf ''bns domain is owned by %v'' [HexString 204])),
           (0, [CallGetAccountNonce 0 170, CallResolveBNSOwner ''hello-world'',
                PrintError ''BNS name can't be transfered''
                  (Some (Errorf ''bns domain is owned by %v'' [HexString 204]))]))
   \<and> (\<exists>r s'. handleTransfer ledgerA (noRequest \<lparr> BNSTransfer := ''hello-world=0xcc'' \<rparr>) (0, [])
          = Some (r, s') \<and> submissions (snd s') = 0)"
proof -
  let ?cfg = "noRequest \<lparr> BNSTransfer := ''hello-world=0xbb'' \<rparr>"
  let ?cfg2 = "noRequest \<lparr> BNSTransfer := ''hello-world=0xcc'' \<rparr>"
  have h1: "length (Split (BNSTransfer ?cfg) CHR ''='') = 2"
    by code_simp
  have h2: "contract_NewBNSContract ledgerA = None"
    by code_simp
  have h3: "''hello-world'' =
      ToLower (unicode_ToLower ledgerA) (Split (BNSTransfer ?cfg) CHR ''='' ! 0)"
    by code_simp
  have h4: "isValidBNS ''hello-world''"
    by code_simp
  have h5: "util_DecodeAddress ledgerA (Split (BNSTransfer ?cfg) CHR ''='' ! 1) = (187, None)"
    by code_simp
  have h6: "client_GetAccountNonce ledgerA (fst (0, [])) 0 (ClientAddr ?cfg) = (5, 0)"
    by code_simp
  have h7: "client_ResolveBNSOwner ledgerA 0 ''hello-world'' = ((204, None), 0)"
    by code_simp
  have h8: "204 \<noteq> client_Config_ClientAddr ledgerA"
    by code_simp
  have h9: "(204 :: address) \<noteq> 187"
    by simp
  have c: "ClientAddr ?cfg = 170"
    by code_simp
  have g3: "''hello-world'' =
      ToLower (unicode_ToLower ledgerA) (Split (BNSTransfer ?cfg2) CHR ''='' ! 0)"
    by code_simp
  have g6: "client_GetAccountNonce ledgerA (fst (0, [])) 0 (ClientAddr ?cfg2) = (5, 0)"
    by code_simp
  have a: "handleTransfer ledgerA ?cfg (0, []) =
     Some ((True, Some (Errorf ''bns domain is owned by %v'' [HexString 204])),
           (0, [CallGetAccountNonce 0 170, CallResolveBNSOwner ''hello-world'',
                PrintError ''BNS name can't be transfered''
                  (Some (Errorf ''bns domain is owned by %v'' [HexString 204]))]))"
    using handleTransfer_conflict [OF h3 h6 h7 h8, of 187] h1 h2 h4 h5 h9
    by (auto simp add: c)
  have b: "\<exists>r s'. handleTransfer ledgerA ?cfg2 (0, []) = Some (r, s') \<and> submissions (snd s') = 0"
    using handleTransfer_conflict [OF g3 g6 h7 h8, of 0]
    by (auto simp add: submissions_def)
  show ?thesis using a b by blast
qed

text \<open>
  The claim C1 as written fails when the owner, who is not the caller, already is the
  requested new owner: on \<open>ledgerA\<close> the name is owned by 204, the caller is 170, and the
  transfer to 204 ends with \<open>domain is already owned by\<close> under
  \<open>BNS name already transferred\<close>, not with the report of a name owned by someone else.
  It also fails when the new owner's text does not decode: the transfer to \<open>zz\<close> ends
  with \<open>Invalid destination address\<close> before the owner is read.
\<close>

theorem handleTransfer_conflict_counterexample:
  "length (Split (BNSTransfer (noRequest \<lparr> BNSTransfer := ''hello-world=0xcc'' \<rparr>)) CHR ''='') = 2
   \<and> isValidBNS ''hello-world''
   \<and> client_ResolveBNSOwner ledgerA 0 ''hello-world'' = ((204, None), 0)
   \<and> 204 \<noteq> client_Config_ClientAddr ledgerA
   \<and> handleTransfer ledgerA (noRequest \<lparr> BNSTransfer := ''hello-world=0xcc'' \<rparr>) (0, []) =
       Some ((True, Some (Errorf ''domain is already owned by %v'' [HexString 204])),
             (0, [CallGetAccountNonce 0 170, CallResolveBNSOwner ''hello-world'',
                  PrintError ''BNS name already transferred''
                    (Some (Errorf ''domain is already owned by %v'' [HexString 204]))]))
   \<and> handleTransfer ledgerA (noRequest \<lparr> BNSTransfer := ''hello-world=0xcc'' \<rparr>) (0, []) \<noteq>
       Some ((True, Some (Errorf ''bns domain is owned by %v'' [HexString 204])),
             (0, [CallGetAccountNonce 0 170, CallResolveBNSOwner ''hello-world'',
                  PrintError ''BNS name can't be transfered''
                    (Some (Errorf ''bns domain is owned by %v'' [HexString 204]))]))
   \<and> length (Split (BNSTransfer (noRequest \<lparr> BNSTransfer := ''hello-world=zz'' \<rparr>))
         CHR ''='') = 2
   \<and> handleTransfer ledgerA (noRequest \<lparr> BNSTransfer := ''hello-world=zz'' \<rparr>) (0, []) =
       Some ((True, Some (External ''invalid address'')),
             (0, [CallGetAccountNonce 0 170,
                  PrintError ''Invalid destination address''
                    (Some (External ''invalid address''))]))"
  by (simp add: handleTransfer_def calls ledgerA_def noRequest_def ToLower_def asciiLower_def
      isValidBNS_def bnsPattern_Match_def bnsClass_def)

subsection \<open>Dispatch\<close>

lemma handleRegister_done:
  "BNSRegister cfg \<noteq> [] \<Longrightarrow> handleRegister ext cfg s = Some ((d, e), s') \<Longrightarrow> d"
  by (auto simp add: handleRegister_def Let_def split: if_splits option.splits prod.splits)

lemma handleUnregister_done:
  "BNSUnregister cfg \<noteq> [] \<Longrightarrow> handleUnregister ext cfg s = Some ((d, e), s') \<Longrightarrow> d"
  by (auto simp add: handleUnregister_def Let_def split: if_splits option.splits prod.splits)

lemma handleTransfer_done:
  "length (Split (BNSTransfer cfg) CHR ''='') = 2 \<Longrightarrow>
   handleTransfer ext cfg s = Some ((d, e), s') \<Longrightarrow> d"
  by (auto simp add: handleTransfer_def Let_def split: if_splits option.splits prod.splits)

lemma handleRegister_skip:
  "BNSRegister cfg = [] \<Longrightarrow> handleRegister ext cfg s = Some ((False, None), s)"
  by (simp add: handleRegister_def)

lemma handleUnregister_skip:
  "BNSUnregister cfg = [] \<Longrightarrow> handleUnregister ext cfg s = Some ((False, None), s)"
  by (simp add: handleUnregister_def)

lemma handleTransfer_skip:
  "length (Split (BNSTransfer cfg) CHR ''='') \<noteq> 2 \<Longrightarrow>
   handleTransfer ext cfg s = Some ((False, None), s)"
  by (simp add: handleTransfer_def)

lemma handleLookup_skip:
  "BNSLookup cfg = [] \<Longrightarrow> handleLookup ext cfg s = ((False, None), s)"
  by (simp add: handleLookup_def ToLower_def)

lemma bnsHandler_register:
  assumes "BNSRegister cfg \<noteq> []"
    and "Start ext s = (None, s0)" and "GetBlockPeak ext s0 = (bn, s1)" and "bn \<noteq> 0"
  shows "bnsHandler ext cfg s = map_option (\<lambda>(r, s'). (snd r, s')) (handleRegister ext cfg s1)"
proof (cases "handleRegister ext cfg s1")
  case None
  then show ?thesis using assms by (simp add: bnsHandler_def)
next
  case (Some a)
  obtain d e s' where a: "a = ((d, e), s')" by (metis surj_pair)
  have "d" using handleRegister_done [OF assms(1)] Some a by blast
  then show ?thesis using assms Some a by (simp add: bnsHandler_def)
qed

lemma bnsHandler_unregister:
  assumes "BNSRegister cfg = []" and "BNSUnregister cfg \<noteq> []"
    and "Start ext s = (None, s0)" and "GetBlockPeak ext s0 = (bn, s1)" and "bn \<noteq> 0"
  shows "bnsHandler ext cfg s = map_option (\<lambda>(r, s'). (snd r, s')) (handleUnregister ext cfg s1)"
proof (cases "handleUnregister ext cfg s1")
  case None
  then show ?thesis using assms by (simp add: bnsHandler_def handleRegister_skip)
next
  case (Some a)
  obtain d e s' where a: "a = ((d, e), s')" by (metis surj_pair)
  have "d" using handleUnregister_done [OF assms(2)] Some a by blast
  then show ?thesis using assms Some a by (simp add: bnsHandler_def handleRegister_skip)
qed

lemma bnsHandler_transfer:
  assumes "BNSRegister cfg = []" and "BNSUnregister cfg = []"
    and "length (Split (BNSTransfer cfg) CHR ''='') = 2"
    and "Start ext s = (None, s0)" and "GetBlockPeak ext s0 = (bn, s1)" and "bn \<noteq> 0"
  shows "bnsHandler ext cfg s = map_option (\<lambda>(r, s'). (snd r, s')) (handleTransfer ext cfg s1)"
proof (cases "handleTransfer ext cfg s1")
  case None
  then show ?thesis using assms
    by (simp add: bnsHandler_def handleRegister_skip handleUnregister_skip)
next
  case (Some a)
  obtain d e s' where a: "a = ((d, e), s')" by (metis surj_pair)
  have "d" using handleTransfer_done [OF assms(3)] Some a by blast
  then show ?thesis using assms Some a
    by (simp add: bnsHandler_def handleRegister_skip handleUnregister_skip)
qed

lemma bnsHandler_lookup:
  assumes "BNSRegister cfg = []" and "BNSUnregister cfg = []"
    and "length (Split (BNSTransfer cfg) CHR ''='') \<noteq> 2"
    and "Start ext s = (None, s0)" and "GetBlockPeak ext s0 = (bn, s1)" and "bn \<noteq> 0"
  shows "bnsHandler ext cfg s =
     (let ((done, err), s5) = handleLookup ext cfg s1
      in if done \<or> err \<noteq> None then Some (err, s5)
         else Some (None, printError ''Argument Error: '' (Some usageError) s5))"
  using assms
  by (auto simp add: bnsHandler_def handleRegister_skip handleUnregister_skip
      handleTransfer_skip split: prod.splits)

lemma handleRegister_cfg:
  "handleRegister ext (cfg \<lparr> BNSUnregister := u, BNSTransfer := t, BNSLookup := l \<rparr>) s =
   handleRegister ext cfg s"
  by (simp add: handleRegister_def cong: if_cong option.case_cong)

lemma handleUnregister_cfg:
  "handleUnregister ext (cfg \<lparr> BNSTransfer := t, BNSLookup := l \<rparr>) s =
   handleUnregister ext cfg s"
  by (simp add: handleUnregister_def cong: if_cong option.case_cong)

lemma handleTransfer_cfg:
  "handleTransfer ext (cfg \<lparr> BNSLookup := l \<rparr>) s = handleTransfer ext cfg s"
  by (simp add: handleTransfer_def cong: if_cong option.case_cong)

lemma handleLookup_cfg:
  "handleLookup ext (cfg \<lparr> BNSTransfer := t \<rparr>) s = handleLookup ext cfg s"
  by (simp add: handleLookup_def cong: if_cong option.case_cong)


lemma bnsHandler_cong:
  assumes "\<And>s0 bn s1. Start ext s = (None, s0) \<Longrightarrow> GetBlockPeak ext s0 = (bn, s1) \<Longrightarrow> bn \<noteq> 0
             \<Longrightarrow> bnsHandler ext cfg s = bnsHandler ext cfg' s"
  shows "bnsHandler ext cfg s = bnsHandler ext cfg' s"
proof (cases "fst (Start ext s) = None \<and> fst (GetBlockPeak ext (snd (Start ext s))) \<noteq> 0")
  case True
  then show ?thesis
    using assms [of "snd (Start ext s)" "fst (GetBlockPeak ext (snd (Start ext s)))"
        "snd (GetBlockPeak ext (snd (Start ext s)))"]
    by (metis prod.collapse)
next
  case False
  then show ?thesis
    by (auto simp add: bnsHandler_def split: prod.splits)
qed

lemma bnsHandler_ignores_after_register:
  assumes "BNSRegister cfg \<noteq> []"
  shows "bnsHandler ext (cfg \<lparr> BNSUnregister := u, BNSTransfer := t, BNSLookup := l \<rparr>) s =
         bnsHandler ext cfg s"
proof (rule bnsHandler_cong)
  fix s0 bn s1
  assume a: "Start ext s = (None, s0)" "GetBlockPeak ext s0 = (bn, s1)" "bn \<noteq> 0"
  have r: "BNSRegister (cfg \<lparr> BNSUnregister := u, BNSTransfer := t, BNSLookup := l \<rparr>) \<noteq> []"
    using assms by simp
  show "bnsHandler ext (cfg \<lparr> BNSUnregister := u, BNSTransfer := t, BNSLookup := l \<rparr>) s =
        bnsHandler ext cfg s"
    unfolding bnsHandler_register [OF r a] bnsHandler_register [OF assms a] handleRegister_cfg ..
qed

lemma bnsHandler_ignores_after_unregister:
  assumes "BNSRegister cfg = []" and "BNSUnregister cfg \<noteq> []"
  shows "bnsHandler ext (cfg \<lparr> BNSTransfer := t, BNSLookup := l \<rparr>) s = bnsHandler ext cfg s"
proof (rule bnsHandler_cong)
  fix s0 bn s1
  assume a: "Start ext s = (None, s0)" "GetBlockPeak ext s0 = (bn, s1)" "bn \<noteq> 0"
  have r: "BNSRegister (cfg \<lparr> BNSTransfer := t, BNSLookup := l \<rparr>) = []"
    and u: "BNSUnregister (cfg \<lparr> BNSTransfer := t, BNSLookup := l \<rparr>) \<noteq> []"
    using assms by simp_all
  show "bnsHandler ext (cfg \<lparr> BNSTransfer := t, BNSLookup := l \<rparr>) s = bnsHandler ext cfg s"
    unfolding bnsHandler_unregister [OF r u a] bnsHandler_unregister [OF assms a]
      handleUnregister_cfg ..
qed

lemma bnsHandler_ignores_after_transfer:
  assumes "BNSRegister cfg = []" and "BNSUnregister cfg = []"
    and "length (Split (BNSTransfer cfg) CHR ''='') = 2"
  shows "bnsHandler ext (cfg \<lparr> BNSLookup := l \<rparr>) s = bnsHandler ext cfg s"
proof (rule bnsHandler_cong)
  fix s0 bn s1
  assume a: "Start ext s = (None, s0)" "GetBlockPeak ext s0 = (bn, s1)" "bn \<noteq> 0"
  have r: "BNSRegister (cfg \<lparr> BNSLookup := l \<rparr>) = []"
    and u: "BNSUnregister (cfg \<lparr> BNSLookup := l \<rparr>) = []"
    and t: "length (Split (BNSTransfer (cfg \<lparr> BNSLookup := l \<rparr>)) CHR ''='') = 2"
    using assms by simp_all
  show "bnsHandler ext (cfg \<lparr> BNSLookup := l \<rparr>) s = bnsHandler ext cfg s"
    unfolding bnsHandler_transfer [OF r u t a] bnsHandler_transfer [OF assms a]
      handleTransfer_cfg ..
qed

lemma bnsHandler_ignores_unsplit_transfer:
  assumes "BNSRegister cfg = []" and "BNSUnregister cfg = []"
    and "length (Split (BNSTransfer cfg) CHR ''='') \<noteq> 2"
  shows "bnsHandler ext (cfg \<lparr> BNSTransfer := [] \<rparr>) s = bnsHandler ext cfg s"
proof (rule bnsHandler_cong)
  fix s0 bn s1
  assume a: "Start ext s = (None, s0)" "GetBlockPeak ext s0 = (bn, s1)" "bn \<noteq> 0"
  have r: "BNSRegister (cfg \<lparr> BNSTransfer := [] \<rparr>) = []"
    and u: "BNSUnregister (cfg \<lparr> BNSTransfer := [] \<rparr>) = []"
    and t: "length (Split (BNSTransfer (cfg \<lparr> BNSTransfer := [] \<rparr>)) CHR ''='') \<noteq> 2"
    using assms by simp_all
  show "bnsHandler ext (cfg \<lparr> BNSTransfer := [] \<rparr>) s = bnsHandler ext cfg s"
    unfolding bnsHandler_lookup [OF r u t a] bnsHandler_lookup [OF assms a]
      handleLookup_cfg ..
qed

text \<open>
  C10. A transfer input that does not split on \<open>=\<close> into exactly two pieces (the empty
  string and a name without \<open>=\<close> give one piece, two or more \<open>=\<close> give three or more,
  see \<open>Split_length\<close>) makes \<open>handleTransfer\<close> return \<open>done = false\<close> and no error
  with the state untouched: nothing is validated, read, submitted or printed. When the
  register and unregister inputs are empty, the command then goes on with \<open>handleLookup\<close>.
\<close>

theorem handleTransfer_not_applicable:
  assumes "length (Split (BNSTransfer cfg) CHR ''='') \<noteq> 2"
  shows "handleTransfer ext cfg s = Some ((False, None), s) \<and>
         (BNSRegister cfg = [] \<and> BNSUnregister cfg = [] \<and> Start ext s = (None, s0) \<and>
          GetBlockPeak ext s0 = (bn, s1) \<and> bn \<noteq> 0 \<longrightarrow>
          bnsHandler ext cfg s =
            (let ((done, err), s5) = handleLookup ext cfg s1
             in if done \<or> err \<noteq> None then Some (err, s5)
                else Some (None, printError ''Argument Error: '' (Some usageError) s5)))"
  using handleTransfer_skip [OF assms] bnsHandler_lookup [OF _ _ assms] by blast

theorem handleTransfer_not_applicable_witness:
  "handleTransfer ledgerA (noRequest \<lparr> BNSTransfer := ''a=b=c'' \<rparr>) (0, []) =
     Some ((False, None), (0, []))
   \<and> bnsHandler ledgerA (noRequest \<lparr> BNSTransfer := ''a=b=c'' \<rparr>) (0, []) =
     Some (None,
       (0, [CallStart, CallGetBlockPeak, PrintError ''Argument Error: '' (Some usageError)]))"
proof -
  let ?cfg = "noRequest \<lparr> BNSTransfer := ''a=b=c'' \<rparr>"
  have h: "length (Split (BNSTransfer ?cfg) CHR ''='') \<noteq> 2"
    by code_simp
  have e: "BNSRegister ?cfg = [] \<and> BNSUnregister ?cfg = []"
    by (simp add: noRequest_def)
  have p: "Start ledgerA (0, []) = (None, (0, [CallStart])) \<and>
      GetBlockPeak ledgerA (0, [CallStart]) = (100, (0, [CallStart, CallGetBlockPeak])) \<and>
      (100 :: 64 word) \<noteq> 0"
    by (simp add: calls ledgerA_def)
  have l: "handleLookup ledgerA ?cfg (0, [CallStart, CallGetBlockPeak]) =
      ((False, None), (0, [CallStart, CallGetBlockPeak]))"
    by (simp add: handleLookup_def ToLower_def noRequest_def)
  show ?thesis
    using handleTransfer_not_applicable [OF h, of ledgerA "(0, [])" "(0, [CallStart])" 100
        "(0, [CallStart, CallGetBlockPeak])"] e p l
    by (simp add: printError_def emit_def)
qed

text \<open>
  C8, as the code has it. Once the application has started and the block peak is not 0,
  the command runs the first handler, in the order register, unregister, transfer, lookup,
  whose input applies, and its result does not depend on the inputs that come later in
  that order. A register or an unregister input applies when it is not empty; a transfer
  input applies when it splits on \<open>=\<close> into exactly two pieces, and one that does not is
  itself passed over as if it were empty.
\<close>

theorem bnsHandler_priority:
  assumes "Start ext s = (None, s0)" and "GetBlockPeak ext s0 = (bn, s1)" and "bn \<noteq> 0"
  shows
    "(BNSRegister cfg \<noteq> [] \<longrightarrow>
        bnsHandler ext cfg s = map_option (\<lambda>(r, s'). (snd r, s')) (handleRegister ext cfg s1)
        \<and> (\<forall>u t l. bnsHandler ext (cfg \<lparr> BNSUnregister := u, BNSTransfer := t, BNSLookup := l \<rparr>) s
              = bnsHandler ext cfg s))
     \<and> (BNSRegister cfg = [] \<and> BNSUnregister cfg \<noteq> [] \<longrightarrow>
        bnsHandler ext cfg s = map_option (\<lambda>(r, s'). (snd r, s')) (handleUnregister ext cfg s1)
        \<and> (\<forall>t l. bnsHandler ext (cfg \<lparr> BNSTransfer := t, BNSLookup := l \<rparr>) s
              = bnsHandler ext cfg s))
     \<and> (BNSRegister cfg = [] \<and> BNSUnregister cfg = []
        \<and> length (Split (BNSTransfer cfg) CHR ''='') = 2 \<longrightarrow>
        bnsHandler ext cfg s = map_option (\<lambda>(r, s'). (snd r, s')) (handleTransfer ext cfg s1)
        \<and> (\<forall>l. bnsHandler ext (cfg \<lparr> BNSLookup := l \<rparr>) s = bnsHandler ext cfg s))
     \<and> (BNSRegister cfg = [] \<and> BNSUnregister cfg = []
        \<and> length (Split (BNSTransfer cfg) CHR ''='') \<noteq> 2 \<longrightarrow>
        bnsHandler ext cfg s = bnsHandler ext (cfg \<lparr> BNSTransfer := [] \<rparr>) s)"
  using bnsHandler_register [OF _ assms] bnsHandler_unregister [OF _ _ assms]
    bnsHandler_transfer [OF _ _ _ assms]
    bnsHandler_ignores_after_register bnsHandler_ignores_after_unregister
    bnsHandler_ignores_after_transfer bnsHandler_ignores_unsplit_transfer
  by metis

theorem bnsHandler_priority_witness:
  "bnsHandler ledgerA
     (noRequest \<lparr> BNSRegister := ''hello-world=0xbb'', BNSLookup := ''other-name'' \<rparr>) (0, []) =
   Some (None,
     (0, [CallStart, CallGetBlockPeak, CallGetAccountNonce 0 170, CallResolveBNS ''hello-world'',
          PrintError ''BNS name is already mapped to this address'' None]))
   \<and> bnsHandler ledgerA
     (noRequest \<lparr> BNSRegister := ''hello-world=0xbb'', BNSLookup := ''other-name'' \<rparr>) (0, []) =
     bnsHandler ledgerA (noRequest \<lparr> BNSRegister := ''hello-world=0xbb'' \<rparr>) (0, [])"
proof -
  let ?cfg = "noRequest \<lparr> BNSRegister := ''hello-world=0xbb'' \<rparr>"
  let ?cfg2 = "noRequest \<lparr> BNSRegister := ''hello-world=0xbb'', BNSLookup := ''other-name'' \<rparr>"
  have h1: "Start ledgerA (0, []) = (None, (0, [CallStart]))"
    by (simp add: calls ledgerA_def)
  have h2: "GetBlockPeak ledgerA (0, [CallStart]) = (100, (0, [CallStart, CallGetBlockPeak]))"
    by (simp add: calls ledgerA_def)
  have h3: "(100 :: 64 word) \<noteq> 0"
    by simp
  have r: "BNSRegister ?cfg \<noteq> []"
    by (simp add: noRequest_def)
  have c: "?cfg2 = ?cfg \<lparr> BNSUnregister := [], BNSTransfer := [], BNSLookup := ''other-name'' \<rparr>"
    by (simp add: noRequest_def)
  have v: "handleRegister ledgerA ?cfg (0, [CallStart, CallGetBlockPeak]) =
      Some ((True, None),
        (0, [CallStart, CallGetBlockPeak, CallGetAccountNonce 0 170,
             CallResolveBNS ''hello-world'',
             PrintError ''BNS name is already mapped to this address'' None]))"
    by (simp add: handleRegister_def calls ledgerA_def noRequest_def ToLower_def asciiLower_def
        isValidBNS_def bnsPattern_Match_def bnsClass_def)
  show ?thesis
    using bnsHandler_priority [OF h1 h2 h3, of ?cfg] r v unfolding c by simp
qed

text \<open>
  The claim C8 as written fails for a transfer input without \<open>=\<close>: with the transfer
  and the lookup inputs both supplied, it is the lookup that runs, and removing the lookup
  input changes the result.
\<close>

theorem bnsHandler_priority_counterexample:
  "BNSTransfer (noRequest \<lparr> BNSTransfer := ''hello-world'', BNSLookup := ''hello-world'' \<rparr>) \<noteq> []
   \<and> bnsHandler ledgerA
       (noRequest \<lparr> BNSTransfer := ''hello-world'', BNSLookup := ''hello-world'' \<rparr>) (0, []) =
     Some (None,
       (0, [CallStart, CallGetBlockPeak, CallResolveBNS ''hello-world'',
            PrintLabel ''Lookup result: '' (Sprintf ''%s=0x%s'' [Str ''hello-world'', Hex 187]),
            CallResolveBNSOwner ''hello-world'',
            PrintLabel ''Domain owner: '' (Sprintf ''0x%s'' [Hex 204])]))
   \<and> bnsHandler ledgerA
       (noRequest \<lparr> BNSTransfer := ''hello-world'', BNSLookup := ''hello-world'' \<rparr>) (0, []) \<noteq>
     bnsHandler ledgerA (noRequest \<lparr> BNSTransfer := ''hello-world'' \<rparr>) (0, [])"
  by (simp add: bnsHandler_def handleRegister_def handleUnregister_def handleTransfer_def
      handleLookup_def calls ledgerA_def noRequest_def ToLower_def asciiLower_def Let_def)

text \<open>
  C3, as the code has it. With none of the four inputs set, no handler touches the state;
  but the command has by then started the application and read the block peak. It returns
  the error of a start that fails, prints \<open>Cannot find block peak\<close> when the peak is 0,
  and prints the usage error otherwise: the usage error is in the log exactly when the
  start succeeds and the peak is not 0, and the log then holds the start, the read of the
  block peak and the usage error, and nothing else.
\<close>

theorem bnsHandler_no_request:
  assumes "BNSRegister cfg = []" and "BNSUnregister cfg = []" and "BNSTransfer cfg = []"
    and "BNSLookup cfg = []"
    and "app_Start ext (fst s) = (e, w0)" and "client_GetBlockPeak ext w0 = (bn, w1)"
  shows "handleRegister ext cfg t = Some ((False, None), t)
     \<and> handleUnregister ext cfg t = Some ((False, None), t)
     \<and> handleTransfer ext cfg t = Some ((False, None), t)
     \<and> handleLookup ext cfg t = ((False, None), t)
     \<and> bnsHandler ext cfg s =
         (if e \<noteq> None then Some (e, (w0, snd s @ [CallStart]))
          else if bn = 0
          then Some (None, (w1, snd s @ [CallStart, CallGetBlockPeak,
                      PrintError ''Cannot find block peak: '' (Some (Errorf ''not found'' []))]))
          else Some (None, (w1, snd s @ [CallStart, CallGetBlockPeak,
                      PrintError ''Argument Error: '' (Some usageError)])))
     \<and> (\<exists>r s'. bnsHandler ext cfg s = Some (r, s')
          \<and> (PrintError ''Argument Error: '' (Some usageError) \<in> set (newEvents s s')
               \<longleftrightarrow> e = None \<and> bn \<noteq> 0))"
proof -
  have sp: "length (Split (BNSTransfer cfg) CHR ''='') \<noteq> 2"
    using assms(3) by simp
  have a: "Start ext s = (e, (w0, snd s @ [CallStart]))"
    using assms(5) by (simp add: Start_def)
  have b: "GetBlockPeak ext (w0, snd s @ [CallStart]) =
      (bn, (w1, snd s @ [CallStart, CallGetBlockPeak]))"
    using assms(6) by (simp add: GetBlockPeak_def)
  have u: "usageError \<noteq> Errorf ''not found'' []"
    by (simp add: usageError_def)
  have run: "bnsHandler ext cfg s =
         (if e \<noteq> None then Some (e, (w0, snd s @ [CallStart]))
          else if bn = 0
          then Some (None, (w1, snd s @ [CallStart, CallGetBlockPeak,
                      PrintError ''Cannot find block peak: '' (Some (Errorf ''not found'' []))]))
          else Some (None, (w1, snd s @ [CallStart, CallGetBlockPeak,
                      PrintError ''Argument Error: '' (Some usageError)])))"
  proof (cases "e = None \<and> bn \<noteq> 0")
    case True
    then have a': "Start ext s = (None, (w0, snd s @ [CallStart]))" and nz: "bn \<noteq> 0"
      using a by simp_all
    show ?thesis
      unfolding bnsHandler_lookup [OF assms(1) assms(2) sp a' b nz]
      using True by (simp add: handleLookup_skip [OF assms(4)] printError_def emit_def)
  next
    case False
    then show ?thesis
      using a b by (auto simp add: bnsHandler_def printError_def emit_def)
  qed
  have iff: "\<exists>r s'. bnsHandler ext cfg s = Some (r, s')
          \<and> (PrintError ''Argument Error: '' (Some usageError) \<in> set (newEvents s s')
               \<longleftrightarrow> e = None \<and> bn \<noteq> 0)"
    unfolding run using u by (auto simp add: newEvents_def)
  show ?thesis
    using run iff handleRegister_skip [OF assms(1)] handleUnregister_skip [OF assms(2)]
      handleTransfer_skip [OF sp] handleLookup_skip [OF assms(4)]
    by blast
qed

theorem bnsHandler_no_request_witness:
  "handleRegister ledgerA noRequest (0, []) = Some ((False, None), (0, []))
   \<and> bnsHandler ledgerA noRequest (0, []) =
       Some (None,
         (0, [CallStart, CallGetBlockPeak, PrintError ''Argument Error: '' (Some usageError)]))
   \<and> bnsHandler (ledgerA \<lparr> client_GetBlockPeak := (\<lambda>w. (0, w)) \<rparr>) noRequest (0, []) =
       Some (None,
         (0, [CallStart, CallGetBlockPeak,
              PrintError ''Cannot find block peak: '' (Some (Errorf ''not found'' []))]))"
proof -
  have h: "BNSRegister noRequest = []" "BNSUnregister noRequest = []"
    "BNSTransfer noRequest = []" "BNSLookup noRequest = []"
    by (simp_all add: noRequest_def)
  have p: "app_Start ledgerA (fst (0, [])) = (None, 0)"
    and q: "client_GetBlockPeak ledgerA 0 = (100, 0)"
    by (simp_all add: ledgerA_def)
  have p0: "app_Start (ledgerA \<lparr> client_GetBlockPeak := (\<lambda>w. (0, w)) \<rparr>) (fst (0, [])) = (None, 0)"
    and q0: "client_GetBlockPeak (ledgerA \<lparr> client_GetBlockPeak := (\<lambda>w. (0, w)) \<rparr>) 0 = (0, 0)"
    by (simp_all add: ledgerA_def)
  show ?thesis
    using bnsHandler_no_request [OF h p q, of "(0, [])"]
      bnsHandler_no_request [OF h p0 q0, of "(0, [])"]
    by simp
qed

text \<open>
  The claim C3 as written fails: when the usage error is printed, the ledger has been read
  once, for the block peak.
\<close>

theorem bnsHandler_no_request_counterexample:
  "BNSRegister noRequest = [] \<and> BNSUnregister noRequest = [] \<and> BNSTransfer noRequest = []
   \<and> BNSLookup noRequest = []
   \<and> bnsHandler ledgerA noRequest (0, []) =
       Some (None,
         (0, [CallStart, CallGetBlockPeak, PrintError ''Argument Error: '' (Some usageError)]))
   \<and> ledgerRead CallGetBlockPeak \<and> networkAccess CallGetBlockPeak"
  by (simp add: bnsHandler_def handleRegister_def handleUnregister_def handleTransfer_def
      handleLookup_def calls ledgerA_def noRequest_def ToLower_def networkAccess_def)

subsection \<open>The wait\<close>

lemma waitBlock_Some_height:
  assumes "waitBlock ext bn s = Some y"
  shows "\<exists>w. fst (client_LastValid ext w) \<noteq> bn"
proof (rule waitBlock.raw_induct
    [where P = "\<lambda>ext bn s y. \<exists>w. fst (client_LastValid ext w) \<noteq> bn", OF _ assms])
  fix f and ext :: "'a extern" and bn s y
  assume IH: "\<And>ext bn s y. f ext bn s = Some y \<Longrightarrow> \<exists>w. fst (client_LastValid ext w) \<noteq> bn"
    and eq: "(if bn \<noteq> fst (LastValid ext s) then Some (snd (LastValid ext s))
              else f ext bn (Sleep ext (snd (LastValid ext s)))) = Some y"
  show "\<exists>w. fst (client_LastValid ext w) \<noteq> bn"
  proof (cases "bn \<noteq> fst (LastValid ext s)")
    case True
    then have "fst (client_LastValid ext (fst s)) \<noteq> bn"
      by (simp add: LastValid_def)
    then show ?thesis ..
  next
    case False
    with eq have "f ext bn (Sleep ext (snd (LastValid ext s))) = Some y"
      by simp
    then show ?thesis by (rule IH)
  qed
qed

lemma waitBlock_stalled:
  assumes "\<forall>w. fst (client_LastValid ext w) = bn"
  shows "waitBlock ext bn s = None"
  using assms waitBlock_Some_height [of ext bn s] by (cases "waitBlock ext bn s") auto

lemma wait_stalled:
  assumes "\<forall>w. fst (client_LastValid ext w) = bn" and "\<forall>t. \<not> fst (condition t)"
  shows "wait ext condition s = None"
proof -
  have b: "fst (LastValid ext t) = bn" for t
    using assms(1) by (simp add: LastValid_def)
  show ?thesis
    unfolding wait_def
    by (subst waitFrom.simps)
      (simp add: Let_def split_beta assms(2) b waitBlock_stalled [OF assms(1)])
qed

text \<open>
  When every inner loop ends, that is when each round sees the block number change, a
  condition that is never true makes \<open>wait\<close> give up after its 6000 rounds.
\<close>

lemma waitFrom_gives_up:
  "\<forall>t. \<not> fst (condition t) \<Longrightarrow> \<forall>bn t. waitBlock ext bn t \<noteq> None \<Longrightarrow>
   \<exists>s'. waitFrom ext condition i s = Some s'
        \<and> last (snd s') = PrintError ''Giving up to wait for transaction''
                             (Some (Errorf ''timeout after 10 minutes'' []))"
proof (induction ext condition i s rule: waitFrom.induct)
  case (1 ext condition i s)
  note never = 1(2) and blocks = 1(3)
  show ?case
  proof (cases "i < 6000")
    case False
    then show ?thesis
      by (subst waitFrom.simps) (simp add: printError_def emit_def)
  next
    case True
    obtain bn s1 where lv: "LastValid ext s = (bn, s1)" by (cases "LastValid ext s")
    obtain c s2 where co: "condition s1 = (c, s2)" by (cases "condition s1")
    have c: "\<not> c" using never [rule_format, of s1] unfolding co by simp
    obtain s3 where wb: "waitBlock ext bn s2 = Some s3"
      using blocks [rule_format, of bn s2] by blast
    have step: "waitFrom ext condition i s = waitFrom ext condition (i + 1) s3"
      using True lv co c wb by (subst waitFrom.simps) simp
    show ?thesis
      unfolding step
      by (rule 1(1) [OF True lv [symmetric] refl co [symmetric] refl c wb never blocks])
  qed
qed

lemma wait_gives_up:
  assumes "\<forall>t. \<not> fst (condition t)" and "\<forall>bn t. waitBlock ext bn t \<noteq> None"
  shows "\<exists>s'. wait ext condition s = Some s'
        \<and> last (snd s') = PrintError ''Giving up to wait for transaction''
                             (Some (Errorf ''timeout after 10 minutes'' []))"
  unfolding wait_def using waitFrom_gives_up [OF assms] .

text \<open>
  C2 does not hold of the code. The outer loop of \<open>wait\<close> is bounded by 6000, but each
  of its rounds waits in the inner loop for a block number other than the one it has
  read, and nothing bounds that. On \<open>ledgerStalled\<close>, where the block number stays at 7
  and the name never resolves to the requested address, neither \<open>wait\<close> nor the register
  handler nor the command returns: the give-up message is never printed.
\<close>

theorem wait_hangs_on_stalled_ledger:
  "wait ledgerStalled (\<lambda>t. (False, t)) (0, []) = None
   \<and> handleRegister ledgerStalled (noRequest \<lparr> BNSRegister := ''hello-world=0xcc'' \<rparr>) (0, [])
       = None
   \<and> bnsHandler ledgerStalled (noRequest \<lparr> BNSRegister := ''hello-world=0xcc'' \<rparr>) (0, [])
       = None"
proof -
  have st: "\<forall>w. fst (client_LastValid ledgerStalled w) = 7"
    by (simp add: ledgerStalled_def)
  have c: "\<forall>t. \<not> fst (registerCondition ledgerStalled ''hello-world'' 204 t)"
    by (simp add: registerCondition_def ResolveBNS_def ledgerStalled_def ledgerA_def)
  have f: "contract_NewBNSContract ledgerStalled = None"
    "unicode_ToLower ledgerStalled = (\<lambda>t. t)"
    "client_GetAccountNonce ledgerStalled = (\<lambda>w b a. (5, w))"
    "util_DecodeAddress ledgerStalled ''0xcc'' = (204, None)"
    "client_ResolveBNS ledgerStalled = (\<lambda>w n. ((187, None), w))"
    "client_SendTransaction ledgerStalled = (\<lambda>w t. ((True, None), w))"
    by (simp_all add: ledgerStalled_def ledgerA_def)
  have r: "handleRegister ledgerStalled (noRequest \<lparr> BNSRegister := ''hello-world=0xcc'' \<rparr>) t
       = None" for t
    by (simp add: handleRegister_def wait_stalled [OF st c] f Let_def
        GetAccountNonce_def ResolveBNS_def SendTransaction_def
        noRequest_def ToLower_def asciiLower_def
        isValidBNS_def bnsPattern_Match_def bnsClass_def)
  show ?thesis
    using wait_stalled [OF st, of "\<lambda>t. (False, t)" "(0, [])"] r
    by (simp add: bnsHandler_def Start_def GetBlockPeak_def ledgerStalled_def ledgerA_def)
qed

subsection \<open>The order of validation, reads and submission\<close>

lemma waitBlock_extends:
  assumes "waitBlock ext bn s = Some y"
  shows "\<exists>evs. snd y = snd s @ evs"
proof (rule waitBlock.raw_induct
    [where P = "\<lambda>ext bn s y. \<exists>evs. snd y = snd s @ evs", OF _ assms])
  fix f and ext :: "'a extern" and bn s y
  assume IH: "\<And>ext bn s y. f ext bn s = Some y \<Longrightarrow> \<exists>evs. snd y = snd s @ evs"
    and eq: "(if bn \<noteq> fst (LastValid ext s) then Some (snd (LastValid ext s))
              else f ext bn (Sleep ext (snd (LastValid ext s)))) = Some y"
  show "\<exists>evs. snd y = snd s @ evs"
  proof (cases "bn \<noteq> fst (LastValid ext s)")
    case True
    with eq have "y = snd (LastValid ext s)" by simp
    then show ?thesis by (simp add: LastValid_def)
  next
    case False
    with eq have "f ext bn (Sleep ext (snd (LastValid ext s))) = Some y"
      by simp
    from IH [OF this] obtain evs where "snd y = snd (Sleep ext (snd (LastValid ext s))) @ evs" ..
    then show ?thesis by (simp add: LastValid_def Sleep_def)
  qed
qed

lemma waitFrom_extends:
  "\<forall>t. \<exists>evs. snd (snd (condition t)) = snd t @ evs \<Longrightarrow>
   waitFrom ext condition i s = Some s' \<Longrightarrow> \<exists>evs. snd s' = snd s @ evs"
proof (induction ext condition i s rule: waitFrom.induct)
  case (1 ext condition i s)
  note cond = 1(2) and run = 1(3)
  show ?case
  proof (cases "i < 6000")
    case False
    with run show ?thesis
      by (subst (asm) waitFrom.simps) (auto simp add: printError_def emit_def)
  next
    case True
    obtain bn s1 where lv: "LastValid ext s = (bn, s1)" by (cases "LastValid ext s")
    obtain c s2 where co: "condition s1 = (c, s2)" by (cases "condition s1")
    have e1: "snd s1 = snd s @ [CallLastValid]"
      using lv by (auto simp add: LastValid_def)
    obtain evs2 where e2: "snd s2 = snd s1 @ evs2"
      using cond [rule_format, of s1] unfolding co by auto
    show ?thesis
    proof (cases c)
      case True
      with run \<open>i < 6000\<close> lv co have "s' = printInfo ''Transaction executed successfully!'' s2"
        by (subst (asm) waitFrom.simps) simp
      then show ?thesis using e1 e2 by (simp add: printInfo_def emit_def)
    next
      case False
      with run \<open>i < 6000\<close> lv co obtain s3 where
        wb: "waitBlock ext bn s2 = Some s3" and wf: "waitFrom ext condition (i + 1) s3 = Some s'"
        by (subst (asm) waitFrom.simps) (auto split: option.splits)
      obtain evs3 where e3: "snd s3 = snd s2 @ evs3"
        using waitBlock_extends [OF wb] ..
      obtain evs4 where e4: "snd s' = snd s3 @ evs4"
        using 1(1) [OF \<open>i < 6000\<close> lv [symmetric] refl co [symmetric] refl False wb cond wf] ..
      show ?thesis using e1 e2 e3 e4 by simp
    qed
  qed
qed

lemma wait_extends:
  assumes "\<forall>t. \<exists>evs. snd (snd (condition t)) = snd t @ evs"
    and "wait ext condition s = Some s'"
  shows "\<exists>evs. snd s' = snd s @ evs"
  using waitFrom_extends [OF assms(1), of ext 0 _ s'] assms(2)
  by (fastforce simp add: wait_def printInfo_def emit_def)


lemma registerCondition_extends:
  "\<forall>t. \<exists>evs. snd (snd (registerCondition ext n a t)) = snd t @ evs"
  by (simp add: registerCondition_def ResolveBNS_def split_beta)

lemma transferCondition_extends:
  "\<forall>t. \<exists>evs. snd (snd (transferCondition ext n a t)) = snd t @ evs"
  by (simp add: transferCondition_def ResolveBNSOwner_def split_beta)

lemma unregisterCondition_extends:
  "\<forall>t. \<exists>evs. snd (snd (unregisterCondition ext n t)) = snd t @ evs"
  by (simp add: unregisterCondition_def ResolveBNSOwner_def split_beta)

lemma handleRegister_reads_first:
  assumes "handleRegister ext cfg s = Some (r, s')"
    and "list_ex submission (newEvents s s')"
    and "name = ToLower (unicode_ToLower ext) (Split (BNSRegister cfg) CHR ''='' ! 0)"
  shows "\<exists>nonce addr. take 3 (newEvents s s') =
           [CallGetAccountNonce 0 (ClientAddr cfg), CallResolveBNS name,
            CallSendTransaction (NewTransaction nonce 0 10000000 (contract_BNSAddr ext) 0
              (bnsContract_Register ext name addr) 0)]"
  using assms
  by (auto simp add: handleRegister_def Let_def split_beta calls
      split: if_splits option.splits
      dest!: wait_extends [OF registerCondition_extends])

lemma handleTransfer_reads_first:
  assumes "handleTransfer ext cfg s = Some (r, s')"
    and "list_ex submission (newEvents s s')"
    and "name = ToLower (unicode_ToLower ext) (Split (BNSTransfer cfg) CHR ''='' ! 0)"
  shows "\<exists>nonce addr. take 3 (newEvents s s') =
           [CallGetAccountNonce 0 (ClientAddr cfg), CallResolveBNSOwner name,
            CallSendTransaction (NewTransaction nonce 0 10000000 (contract_BNSAddr ext) 0
              (bnsContract_Transfer ext name addr) 0)]"
  using assms
  by (auto simp add: handleTransfer_def Let_def split_beta calls
      split: if_splits option.splits
      dest!: wait_extends [OF transferCondition_extends])

lemma handleUnregister_reads_first:
  assumes "handleUnregister ext cfg s = Some (r, s')"
    and "list_ex submission (newEvents s s')"
    and "name = ToLower (unicode_ToLower ext) (BNSUnregister cfg)"
  shows "\<exists>nonce. take 3 (newEvents s s') =
           [CallGetAccountNonce 0 (ClientAddr cfg), CallResolveBNSOwner name,
            CallSendTransaction (NewTransaction nonce 0 10000000 (contract_BNSAddr ext) 0
              (bnsContract_Unregister ext name) 0)]"
  using assms
  by (auto simp add: handleUnregister_def Let_def split_beta calls
      split: if_splits option.splits
      dest!: wait_extends [OF unregisterCondition_extends])

lemma handleRegister_invalid_name:
  assumes "\<not> isValidBNS (ToLower (unicode_ToLower ext) (Split (BNSRegister cfg) CHR ''='' ! 0))"
  shows "handleRegister ext cfg s \<noteq> None"
    and "handleRegister ext cfg s = Some (r, s') \<Longrightarrow> \<not> list_ex networkAccess (newEvents s s')"
  using assms
  by (auto simp add: handleRegister_def Let_def printError_def emit_def
      networkAccess_def split: option.splits if_splits)

lemma handleTransfer_invalid_name:
  assumes "\<not> isValidBNS (ToLower (unicode_ToLower ext) (Split (BNSTransfer cfg) CHR ''='' ! 0))"
  shows "handleTransfer ext cfg s \<noteq> None"
    and "handleTransfer ext cfg s = Some (r, s') \<Longrightarrow> \<not> list_ex networkAccess (newEvents s s')"
  using assms
  by (auto simp add: handleTransfer_def Let_def printError_def emit_def
      networkAccess_def split: option.splits if_splits)

lemma handleUnregister_invalid_name:
  assumes "\<not> isValidBNS (ToLower (unicode_ToLower ext) (BNSUnregister cfg))"
  shows "handleUnregister ext cfg s \<noteq> None"
    and "handleUnregister ext cfg s = Some (r, s') \<Longrightarrow> \<not> list_ex networkAccess (newEvents s s')"
  using assms
  by (auto simp add: handleUnregister_def Let_def printError_def emit_def
      networkAccess_def split: option.splits if_splits)

lemma handleRegister_bad_address:
  assumes "BNSRegister cfg \<noteq> []"
    and "contract_NewBNSContract ext = None"
    and "isValidBNS (ToLower (unicode_ToLower ext) (Split (BNSRegister cfg) CHR ''='' ! 0))"
    and "1 < length (Split (BNSRegister cfg) CHR ''='')"
    and "util_DecodeAddress ext (Split (BNSRegister cfg) CHR ''='' ! 1) = (a, Some e)"
    and "client_GetAccountNonce ext (fst s) 0 (ClientAddr cfg) = (nonce, w1)"
  shows "handleRegister ext cfg s =
     Some ((True, Some e),
       (w1, snd s @ [CallGetAccountNonce 0 (ClientAddr cfg),
                     PrintError ''Invalid diode address'' (Some e)]))"
  using assms by (simp add: handleRegister_def calls)

lemma handleTransfer_bad_address:
  assumes "length (Split (BNSTransfer cfg) CHR ''='') = 2"
    and "contract_NewBNSContract ext = None"
    and "isValidBNS (ToLower (unicode_ToLower ext) (Split (BNSTransfer cfg) CHR ''='' ! 0))"
    and "util_DecodeAddress ext (Split (BNSTransfer cfg) CHR ''='' ! 1) = (a, Some e)"
    and "client_GetAccountNonce ext (fst s) 0 (ClientAddr cfg) = (nonce, w1)"
  shows "handleTransfer ext cfg s =
     Some ((True, Some e),
       (w1, snd s @ [CallGetAccountNonce 0 (ClientAddr cfg),
                     PrintError ''Invalid destination address'' (Some e)]))"
  using assms by (simp add: handleTransfer_def calls)

text \<open>
  C7, as the code has it. In each of the three mutation handlers the name is validated
  before anything is read: a name that is not valid makes the handler return with no
  network access at all. Every run that submits a transaction has first read the account
  nonce and then resolved the name, and the submitted transaction carries that nonce. The
  address text, however, is decoded after the nonce has been read: a register or transfer
  request with a valid name and an address that does not decode is refused after that one
  read, with no resolver read and no submission.
\<close>

theorem handlers_order:
  assumes "rname = ToLower (unicode_ToLower ext) (Split (BNSRegister cfg) CHR ''='' ! 0)"
    and "tname = ToLower (unicode_ToLower ext) (Split (BNSTransfer cfg) CHR ''='' ! 0)"
    and "uname = ToLower (unicode_ToLower ext) (BNSUnregister cfg)"
  shows
    "(\<not> isValidBNS rname \<longrightarrow>
        handleRegister ext cfg s \<noteq> None
        \<and> (\<forall>r s'. handleRegister ext cfg s = Some (r, s')
              \<longrightarrow> \<not> list_ex networkAccess (newEvents s s')))
     \<and> (\<not> isValidBNS tname \<longrightarrow>
        handleTransfer ext cfg s \<noteq> None
        \<and> (\<forall>r s'. handleTransfer ext cfg s = Some (r, s')
              \<longrightarrow> \<not> list_ex networkAccess (newEvents s s')))
     \<and> (\<not> isValidBNS uname \<longrightarrow>
        handleUnregister ext cfg s \<noteq> None
        \<and> (\<forall>r s'. handleUnregister ext cfg s = Some (r, s')
              \<longrightarrow> \<not> list_ex networkAccess (newEvents s s')))
     \<and> (\<forall>r s'. handleRegister ext cfg s = Some (r, s') \<and> list_ex submission (newEvents s s')
          \<longrightarrow> (\<exists>nonce addr. take 3 (newEvents s s') =
                 [CallGetAccountNonce 0 (ClientAddr cfg), CallResolveBNS rname,
                  CallSendTransaction (NewTransaction nonce 0 10000000 (contract_BNSAddr ext) 0
                    (bnsContract_Register ext rname addr) 0)]))
     \<and> (\<forall>r s'. handleTransfer ext cfg s = Some (r, s') \<and> list_ex submission (newEvents s s')
          \<longrightarrow> (\<exists>nonce addr. take 3 (newEvents s s') =
                 [CallGetAccountNonce 0 (ClientAddr cfg), CallResolveBNSOwner tname,
                  CallSendTransaction (NewTransaction nonce 0 10000000 (contract_BNSAddr ext) 0
                    (bnsContract_Transfer ext tname addr) 0)]))
     \<and> (\<forall>r s'. handleUnregister ext cfg s = Some (r, s') \<and> list_ex submission (newEvents s s')
          \<longrightarrow> (\<exists>nonce. take 3 (newEvents s s') =
                 [CallGetAccountNonce 0 (ClientAddr cfg), CallResolveBNSOwner uname,
                  CallSendTransaction (NewTransaction nonce 0 10000000 (contract_BNSAddr ext) 0
                    (bnsContract_Unregister ext uname) 0)]))
     \<and> (BNSRegister cfg \<noteq> [] \<and> contract_NewBNSContract ext = None \<and> isValidBNS rname
        \<and> 1 < length (Split (BNSRegister cfg) CHR ''='')
        \<and> util_DecodeAddress ext (Split (BNSRegister cfg) CHR ''='' ! 1) = (a, Some e)
        \<and> client_GetAccountNonce ext (fst s) 0 (ClientAddr cfg) = (n, w1) \<longrightarrow>
        handleRegister ext cfg s =
          Some ((True, Some e),
            (w1, snd s @ [CallGetAccountNonce 0 (ClientAddr cfg),
                          PrintError ''Invalid diode address'' (Some e)])))
     \<and> (length (Split (BNSTransfer cfg) CHR ''='') = 2 \<and> contract_NewBNSContract ext = None
        \<and> isValidBNS tname
        \<and> util_DecodeAddress ext (Split (BNSTransfer cfg) CHR ''='' ! 1) = (a, Some e)
        \<and> client_GetAccountNonce ext (fst s) 0 (ClientAddr cfg) = (n, w1) \<longrightarrow>
        handleTransfer ext cfg s =
          Some ((True, Some e),
            (w1, snd s @ [CallGetAccountNonce 0 (ClientAddr cfg),
                          PrintError ''Invalid destination address'' (Some e)])))"
proof -
  have 1: "\<not> isValidBNS rname \<longrightarrow>
        handleRegister ext cfg s \<noteq> None
        \<and> (\<forall>r s'. handleRegister ext cfg s = Some (r, s')
              \<longrightarrow> \<not> list_ex networkAccess (newEvents s s'))"
    using handleRegister_invalid_name [of ext cfg s] unfolding assms(1) by blast
  have 2: "\<not> isValidBNS tname \<longrightarrow>
        handleTransfer ext cfg s \<noteq> None
        \<and> (\<forall>r s'. handleTransfer ext cfg s = Some (r, s')
              \<longrightarrow> \<not> list_ex networkAccess (newEvents s s'))"
    using handleTransfer_invalid_name [of ext cfg s] unfolding assms(2) by blast
  have 3: "\<not> isValidBNS uname \<longrightarrow>
        handleUnregister ext cfg s \<noteq> None
        \<and> (\<forall>r s'. handleUnregister ext cfg s = Some (r, s')
              \<longrightarrow> \<not> list_ex networkAccess (newEvents s s'))"
    using handleUnregister_invalid_name [of ext cfg s] unfolding assms(3) by blast
  show ?thesis
    using 1 2 3 handleRegister_reads_first [OF _ _ assms(1), of s]
      handleTransfer_reads_first [OF _ _ assms(2), of s]
      handleUnregister_reads_first [OF _ _ assms(3), of s]
      handleRegister_bad_address [of cfg ext a e s n w1]
      handleTransfer_bad_address [of cfg ext a e s n w1]
    unfolding assms by blast
qed

theorem handlers_order_witness:
  "\<not> isValidBNS ''short''
   \<and> handleRegister ledgerB (noRequest \<lparr> BNSRegister := ''short'' \<rparr>) (0, []) \<noteq> None
   \<and> list_ex submission
       [CallGetAccountNonce 0 170, CallResolveBNS ''hello-world'',
        CallSendTransaction (NewTransaction 5 0 10000000 181 0 [] 0),
        PrintLabel ''Register bns: '' (Sprintf ''%s=%s'' [Str ''hello-world'', HexString 204]),
        PrintInfo ''Waiting for block to be confirmed - expect to wait 5 minutes'',
        CallLastValid, CallResolveBNS ''hello-world'',
        PrintInfo ''Transaction executed successfully!'']
   \<and> handleRegister ledgerB (noRequest \<lparr> BNSRegister := ''hello-world=0xcc'' \<rparr>) (0, []) =
     Some ((True, None),
       (2, [CallGetAccountNonce 0 170, CallResolveBNS ''hello-world'',
            CallSendTransaction (NewTransaction 5 0 10000000 181 0 [] 0),
            PrintLabel ''Register bns: '' (Sprintf ''%s=%s'' [Str ''hello-world'', HexString 204]),
            PrintInfo ''Waiting for block to be confirmed - expect to wait 5 minutes'',
            CallLastValid, CallResolveBNS ''hello-world'',
            PrintInfo ''Transaction executed successfully!'']))
   \<and> handleRegister ledgerB (noRequest \<lparr> BNSRegister := ''hello-world=zz'' \<rparr>) (0, []) =
     Some ((True, Some (External ''invalid address'')),
       (0, [CallGetAccountNonce 0 170,
            PrintError ''Invalid diode address'' (Some (External ''invalid address''))]))"
proof -
  let ?c1 = "noRequest \<lparr> BNSRegister := ''short'' \<rparr>"
  let ?c2 = "noRequest \<lparr> BNSRegister := ''hello-world=0xcc'' \<rparr>"
  let ?c3 = "noRequest \<lparr> BNSRegister := ''hello-world=zz'' \<rparr>"
  have n1: "''short'' = ToLower (unicode_ToLower ledgerB) (Split (BNSRegister ?c1) CHR ''='' ! 0)"
    by code_simp
  have n3: "''hello-world'' =
      ToLower (unicode_ToLower ledgerB) (Split (BNSRegister ?c3) CHR ''='' ! 0)"
    by code_simp
  have v1: "\<not> isValidBNS ''short''"
    by code_simp
  have run: "handleRegister ledgerB ?c2 (0, []) =
     Some ((True, None),
       (2, [CallGetAccountNonce 0 170, CallResolveBNS ''hello-world'',
            CallSendTransaction (NewTransaction 5 0 10000000 181 0 [] 0),
            PrintLabel ''Register bns: '' (Sprintf ''%s=%s'' [Str ''hello-world'', HexString 204]),
            PrintInfo ''Waiting for block to be confirmed - expect to wait 5 minutes'',
            CallLastValid, CallResolveBNS ''hello-world'',
            PrintInfo ''Transaction executed successfully!'']))"
    by (simp add: handleRegister_def wait_def waitFrom.simps [of _ _ 0] registerCondition_def
        calls ledgerB_def ledgerA_def noRequest_def ToLower_def asciiLower_def
        isValidBNS_def bnsPattern_Match_def bnsClass_def Let_def)
  have h3: "BNSRegister ?c3 \<noteq> [] \<and> contract_NewBNSContract ledgerB = None
      \<and> isValidBNS ''hello-world'' \<and> 1 < length (Split (BNSRegister ?c3) CHR ''='')
      \<and> util_DecodeAddress ledgerB (Split (BNSRegister ?c3) CHR ''='' ! 1) =
          (0, Some (External ''invalid address''))
      \<and> client_GetAccountNonce ledgerB (fst (0, [])) 0 (ClientAddr ?c3) = (5, 0)"
    by code_simp
  have c: "ClientAddr ?c3 = 170"
    by code_simp
  show ?thesis
    using handlers_order [OF n1 refl refl, of "(0, [])"]
      handlers_order [OF n3 refl refl, of "(0, [])" 0 "External ''invalid address''" 5 0]
      v1 run h3
    by (simp add: c)
qed

text \<open>
  The claim C7 as written fails for the address: on \<open>ledgerA\<close> the register request
  \<open>hello-world=zz\<close>, whose address text does not decode, is refused only after the
  account nonce has been read from the ledger.
\<close>

theorem handlers_order_counterexample:
  "snd (util_DecodeAddress ledgerA ''zz'') \<noteq> None
   \<and> handleRegister ledgerA (noRequest \<lparr> BNSRegister := ''hello-world=zz'' \<rparr>) (0, []) =
     Some ((True, Some (External ''invalid address'')),
       (0, [CallGetAccountNonce 0 170,
            PrintError ''Invalid diode address'' (Some (External ''invalid address''))]))
   \<and> networkAccess (CallGetAccountNonce 0 170)"
  by (simp add: handleRegister_def calls
      ledgerA_def noRequest_def ToLower_def asciiLower_def networkAccess_def
      isValidBNS_def bnsPattern_Match_def bnsClass_def Let_def)

subsection \<open>Lower-casing of the name\<close>













end
